theory Spec2Isabelle
  imports Complex_Main "HOL-Library.Multiset"
begin

section \<open>The product catalog service of app.py\<close>

text \<open>
  The service of \<^verbatim>\<open>app.py\<close> keeps products in a PostgreSQL table and caches reads in
  Redis. Each endpoint is embedded as a function from the state of both servers to a
  result and the state afterwards. The two servers are taken as reachable. A statement
  is carried out unless a value of the request does not fit its column, in which case
  \<^verbatim>\<open>cursor.execute\<close> raises and the endpoint ends there. What the service computes
  itself between the calls (the cache keys, the truth tests, the JSON encoding of what it
  caches, the exceptions it raises) is part of the model, with every exception as a
  value.
\<close>

subsection \<open>Exceptions\<close>

text \<open>
  \<^verbatim>\<open>HTTPException(status_code, detail)\<close> is raised by the endpoints; \<^verbatim>\<open>TypeError\<close> is
  what \<^verbatim>\<open>json.dumps\<close> raises on an object it has no encoding for. \<^verbatim>\<open>ValueError\<close> is
  what psycopg2 raises when a string of the query holds a NUL character, and
  \<^verbatim>\<open>DataError\<close> stands for the exceptions of class \<^verbatim>\<open>psycopg2.DataError\<close> that
  \<^verbatim>\<open>cursor.execute\<close> raises when PostgreSQL rejects a value for its column.
\<close>

datatype error = HTTPException nat string | TypeError string | ValueError | DataError

subsection \<open>Python values and JSON documents\<close>

text \<open>
  The values the endpoints handle. A \<^verbatim>\<open>float\<close> is carried as the decimal number its
  \<^verbatim>\<open>repr\<close> denotes (the text the database driver and the JSON encoder write).
  \<^verbatim>\<open>PyDecimal c\<close> is a \<^verbatim>\<open>decimal.Decimal\<close> with two fractional digits and unscaled
  value \<open>c\<close>: psycopg2 reads a \<^verbatim>\<open>DECIMAL(10, 2)\<close> column as \<^verbatim>\<open>Decimal\<close>, and
  \<^verbatim>\<open>app.py\<close> registers no other typecaster.
\<close>

datatype pyval =
    PyNone
  | PyBool bool
  | PyInt int
  | PyFloat rat
  | PyStr string
  | PyDecimal int
  | PyList "pyval list"
  | PyDict "(string \<times> pyval) list"

datatype json =
    JNull
  | JBool bool
  | JInt int
  | JReal rat
  | JString string
  | JArray "json list"
  | JObject "(string \<times> json) list"

text \<open>The first failure of a list of results, or all the values.\<close>

fun collect :: "(error + 'a) list \<Rightarrow> error + 'a list" where
  "collect [] = Inr []"
| "collect (Inl e # _) = Inl e"
| "collect (Inr x # rs) = (case collect rs of Inl e \<Rightarrow> Inl e | Inr xs \<Rightarrow> Inr (x # xs))"

fun collect_items :: "(string \<times> (error + 'a)) list \<Rightarrow> error + (string \<times> 'a) list" where
  "collect_items [] = Inr []"
| "collect_items ((k, Inl e) # _) = Inl e"
| "collect_items ((k, Inr x) # rs) =
     (case collect_items rs of Inl e \<Rightarrow> Inl e | Inr xs \<Rightarrow> Inr ((k, x) # xs))"

text \<open>
  \<^verbatim>\<open>json.dumps\<close> with the default encoder: \<^verbatim>\<open>None\<close>, \<^verbatim>\<open>bool\<close>, \<^verbatim>\<open>int\<close>, \<^verbatim>\<open>float\<close>,
  \<^verbatim>\<open>str\<close>, \<^verbatim>\<open>list\<close> and \<^verbatim>\<open>dict\<close> have an encoding; for any other object, a
  \<^verbatim>\<open>Decimal\<close> among them, the encoder raises \<^verbatim>\<open>TypeError\<close>.
\<close>

primrec json_dumps :: "pyval \<Rightarrow> error + json" where
  "json_dumps PyNone = Inr JNull"
| "json_dumps (PyBool b) = Inr (JBool b)"
| "json_dumps (PyInt i) = Inr (JInt i)"
| "json_dumps (PyFloat x) = Inr (JReal x)"
| "json_dumps (PyStr t) = Inr (JString t)"
| "json_dumps (PyDecimal c) = Inl (TypeError ''Object of type Decimal is not JSON serializable'')"
| "json_dumps (PyList vs) = map_sum id JArray (collect (map json_dumps vs))"
| "json_dumps (PyDict kvs) = map_sum id JObject (collect_items (map (map_prod id json_dumps) kvs))"

primrec json_loads :: "json \<Rightarrow> pyval" where
  "json_loads JNull = PyNone"
| "json_loads (JBool b) = PyBool b"
| "json_loads (JInt i) = PyInt i"
| "json_loads (JReal x) = PyFloat x"
| "json_loads (JString t) = PyStr t"
| "json_loads (JArray ds) = PyList (map json_loads ds)"
| "json_loads (JObject kds) = PyDict (map (map_prod id json_loads) kds)"

subsection \<open>The request body and the table\<close>

text \<open>
  \<^verbatim>\<open>class Product(BaseModel)\<close>: name, description, price (a float), stock (an int).
\<close>

record Product =
  name :: string
  description :: string
  price :: rat
  stock :: int

text \<open>
  A row of the table \<^verbatim>\<open>products\<close> created by \<^verbatim>\<open>init_db\<close>. The column
  \<^verbatim>\<open>price DECIMAL(10, 2)\<close> holds a number with two fractional digits, kept as its
  unscaled value (the price in hundredths).
\<close>

record product_row =
  row_id :: int
  row_name :: string
  row_description :: string
  row_price :: int
  row_stock :: int

text \<open>
  Storing a number into \<^verbatim>\<open>DECIMAL(10, 2)\<close> rounds it to two fractional digits, ties
  away from zero; the rounded number must have fewer than nine digits before the point,
  or PostgreSQL rejects it (numeric field overflow).
\<close>

definition round_hundredths :: "rat \<Rightarrow> int" where
  "round_hundredths x =
     (if 0 \<le> x then \<lfloor>x * 100 + 1 / 2\<rfloor> else - \<lfloor>- x * 100 + 1 / 2\<rfloor>)"

definition to_decimal_10_2 :: "rat \<Rightarrow> int option" where
  "to_decimal_10_2 x =
     (let c = round_hundredths x in if \<bar>c\<bar> < 10 ^ 10 then Some c else None)"

text \<open>
  Storing a string into \<^verbatim>\<open>VARCHAR(255)\<close>: a string of more than 255 characters is
  rejected (value too long), unless all the characters beyond the 255th are spaces, which
  are cut off.
\<close>

definition to_varchar_255 :: "string \<Rightarrow> string option" where
  "to_varchar_255 t =
     (if length t \<le> 255 then Some t
      else if list_all (\<lambda>c. c = CHR '' '') (drop 255 t) then Some (take 255 t)
      else None)"

text \<open>
  Storing an integer into \<^verbatim>\<open>INTEGER\<close>, which is 32 bits wide: a number outside the
  range is rejected (integer out of range).
\<close>

definition to_integer :: "int \<Rightarrow> int option" where
  "to_integer k = (if - (2 ^ 31) \<le> k \<and> k < 2 ^ 31 then Some k else None)"

text \<open>
  \<^verbatim>\<open>dict(row)\<close> of a \<^verbatim>\<open>RealDictRow\<close>: the columns by name, in the order of the
  query, with the driver's Python types.
\<close>

definition dict_of_row :: "product_row \<Rightarrow> pyval" where
  "dict_of_row r =
     PyDict [(''id'', PyInt (row_id r)), (''name'', PyStr (row_name r)),
             (''description'', PyStr (row_description r)),
             (''price'', PyDecimal (row_price r)), (''stock'', PyInt (row_stock r))]"

subsection \<open>The cache\<close>

text \<open>
  Redis maps a key to a value and the seconds the key has left. The service stores
  only the output of \<^verbatim>\<open>json.dumps\<close>, so a value is a JSON document; such a text is
  never empty, so the truth test \<^verbatim>\<open>if cached:\<close> holds exactly when the key is there.
\<close>

record cache_entry =
  payload :: json
  ttl :: nat

type_synonym cache = "string \<rightharpoonup> cache_entry"

definition r_get :: "cache \<Rightarrow> string \<Rightarrow> json option" where
  "r_get c k = map_option payload (c k)"

definition r_setex :: "cache \<Rightarrow> string \<Rightarrow> nat \<Rightarrow> json \<Rightarrow> cache" where
  "r_setex c k t v = c(k \<mapsto> \<lparr>payload = v, ttl = t\<rparr>)"

definition r_delete :: "cache \<Rightarrow> string \<Rightarrow> cache" where
  "r_delete c k = c(k := None)"

text \<open>Python's \<^verbatim>\<open>str\<close> of an int, as the f-string \<^verbatim>\<open>f"product:{product_id}"\<close> uses it.\<close>

fun digits :: "nat \<Rightarrow> string" where
  "digits n = (if n < 10 then [''0123456789'' ! n]
               else digits (n div 10) @ [''0123456789'' ! (n mod 10)])"

definition py_str :: "int \<Rightarrow> string" where
  "py_str i = (if i < 0 then CHR ''-'' # digits (nat (- i)) else digits (nat i))"

definition product_key :: "int \<Rightarrow> string" where
  "product_key product_id = ''product:'' @ py_str product_id"

subsection \<open>The state and the statements\<close>

text \<open>
  The table, the next value of the sequence behind \<^verbatim>\<open>id SERIAL\<close>, and the cache.
\<close>

record state =
  products :: "product_row list"
  products_id_seq :: int
  redis :: cache

definition init_state :: state where
  "init_state = \<lparr>products = [], products_id_seq = 1, redis = Map.empty\<rparr>"

text \<open>\<^verbatim>\<open>SELECT * FROM products WHERE id = %s\<close> and \<^verbatim>\<open>fetchone()\<close>.\<close>

definition select_by_id :: "product_row list \<Rightarrow> int \<Rightarrow> product_row option" where
  "select_by_id rows product_id = find (\<lambda>r. row_id r = product_id) rows"

text \<open>\<^verbatim>\<open>SELECT * FROM products ORDER BY id\<close> and \<^verbatim>\<open>fetchall()\<close>.\<close>

definition select_all_ordered :: "product_row list \<Rightarrow> product_row list" where
  "select_all_ordered rows = sort_key row_id rows"

text \<open>
  The values of a request as a row with a given id, as \<^verbatim>\<open>cursor.execute\<close> passes them
  on: psycopg2 writes the four values into the text of the statement and raises
  \<^verbatim>\<open>ValueError\<close> for a string with a NUL character; PostgreSQL converts the values to
  the types of their columns when it plans the statement, before it looks at any row,
  and rejects the statement when one does not fit.
\<close>

definition row_of_values :: "int \<Rightarrow> Product \<Rightarrow> error + product_row" where
  "row_of_values i product =
     (if CHR 0x00 \<in> set (name product) \<or> CHR 0x00 \<in> set (description product)
      then Inl ValueError
      else case (to_varchar_255 (name product), to_decimal_10_2 (price product),
                 to_integer (stock product)) of
             (Some n, Some c, Some k) \<Rightarrow>
               Inr \<lparr>row_id = i, row_name = n, row_description = description product,
                    row_price = c, row_stock = k\<rparr>
           | _ \<Rightarrow> Inl DataError)"

text \<open>
  \<^verbatim>\<open>INSERT INTO products (name, description, price, stock) VALUES ... RETURNING ...\<close>:
  the new row takes the next value of the sequence. A rejected statement stores nothing.
\<close>

definition insert_row :: "state \<Rightarrow> Product \<Rightarrow> (error + product_row) \<times> state" where
  "insert_row s product =
     (case row_of_values (products_id_seq s) product of
        Inl e \<Rightarrow> (Inl e, s)
      | Inr new_product \<Rightarrow>
          (Inr new_product,
           s\<lparr>products := products s @ [new_product],
             products_id_seq := products_id_seq s + 1\<rparr>))"

text \<open>
  \<^verbatim>\<open>UPDATE products SET name = %s, description = %s, price = %s, stock = %s WHERE id = %s
  RETURNING ...\<close>: every row with that id is rewritten; \<^verbatim>\<open>fetchone()\<close> gives the first
  rewritten row, or \<^verbatim>\<open>None\<close> when no row matched. A rejected statement is rejected
  whether or not a row has the id, and rewrites nothing.
\<close>

definition update_row ::
  "state \<Rightarrow> int \<Rightarrow> Product \<Rightarrow> (error + product_row option) \<times> state" where
  "update_row s product_id product =
     (case row_of_values product_id product of
        Inl e \<Rightarrow> (Inl e, s)
      | Inr updated_row \<Rightarrow>
          (let rows = map (\<lambda>r. if row_id r = product_id then updated_row else r) (products s)
           in (Inr (find (\<lambda>r. row_id r = product_id) rows), s\<lparr>products := rows\<rparr>)))"

text \<open>\<^verbatim>\<open>DELETE FROM products WHERE id = %s RETURNING id\<close> and \<^verbatim>\<open>fetchone()\<close>.\<close>

definition delete_row :: "state \<Rightarrow> int \<Rightarrow> int option \<times> state" where
  "delete_row s product_id =
     (map_option row_id (find (\<lambda>r. row_id r = product_id) (products s)),
      s\<lparr>products := filter (\<lambda>r. row_id r \<noteq> product_id) (products s)\<rparr>)"

subsection \<open>The endpoints\<close>

text \<open>
  \<^verbatim>\<open>health_check\<close>. Its two arguments are what the checks of the servers do: \<open>None\<close>
  when the check passes, \<open>Some msg\<close> when it raises an exception whose \<^verbatim>\<open>str\<close> is
  \<open>msg\<close>. PostgreSQL is checked first; any exception becomes one
  \<^verbatim>\<open>HTTPException(500)\<close>.
\<close>

definition health_check :: "string option \<Rightarrow> string option \<Rightarrow> error + pyval" where
  "health_check postgres_check redis_ping =
     (case postgres_check of
        Some e \<Rightarrow> Inl (HTTPException 500 (''Health check failed: '' @ e))
      | None \<Rightarrow>
         (case redis_ping of
            Some e \<Rightarrow> Inl (HTTPException 500 (''Health check failed: '' @ e))
          | None \<Rightarrow>
             Inr (PyDict [(''status'', PyStr ''healthy''),
                          (''postgres'', PyStr ''connected''),
                          (''redis'', PyStr ''connected'')])))"

text \<open>
  \<^verbatim>\<open>create_product\<close>: insert, commit, delete the key of the listing. An exception of
  \<^verbatim>\<open>cursor.execute\<close> ends the endpoint before the commit and the cache.
\<close>

definition create_product :: "state \<Rightarrow> Product \<Rightarrow> (error + pyval) \<times> state" where
  "create_product s product =
     (case insert_row s product of
        (Inl e, s1) \<Rightarrow> (Inl e, s1)
      | (Inr new_product, s1) \<Rightarrow>
          (Inr (dict_of_row new_product),
           s1\<lparr>redis := r_delete (redis s1) ''products:all''\<rparr>))"

text \<open>
  \<^verbatim>\<open>list_products\<close>: the cached listing when \<^verbatim>\<open>use_cache\<close> is set and the key is
  there; otherwise the rows in the order of their ids, encoded and cached for 300 seconds.
\<close>

definition list_from_database :: "state \<Rightarrow> (error + pyval) \<times> state" where
  "list_from_database s =
     (let products_list = PyList (map dict_of_row (select_all_ordered (products s)))
      in case json_dumps products_list of
           Inl e \<Rightarrow> (Inl e, s)
         | Inr doc \<Rightarrow>
             (Inr products_list, s\<lparr>redis := r_setex (redis s) ''products:all'' 300 doc\<rparr>))"

definition list_products :: "state \<Rightarrow> bool \<Rightarrow> (error + pyval) \<times> state" where
  "list_products s use_cache =
     (if use_cache then
        (case r_get (redis s) ''products:all'' of
           Some cached \<Rightarrow> (Inr (json_loads cached), s)
         | None \<Rightarrow> list_from_database s)
      else list_from_database s)"

text \<open>
  \<^verbatim>\<open>get_product\<close>: the cached product when its key is there; otherwise the row, or
  \<^verbatim>\<open>HTTPException(404)\<close> when there is none; the row is encoded and cached for 300
  seconds before it is returned.
\<close>

definition get_product :: "state \<Rightarrow> int \<Rightarrow> (error + pyval) \<times> state" where
  "get_product s product_id =
     (let cache_key = product_key product_id
      in case r_get (redis s) cache_key of
           Some cached \<Rightarrow> (Inr (json_loads cached), s)
         | None \<Rightarrow>
            (case select_by_id (products s) product_id of
               None \<Rightarrow> (Inl (HTTPException 404 ''Product not found''), s)
             | Some product \<Rightarrow>
                (let product_dict = dict_of_row product
                 in case json_dumps product_dict of
                      Inl e \<Rightarrow> (Inl e, s)
                    | Inr doc \<Rightarrow>
                        (Inr product_dict,
                         s\<lparr>redis := r_setex (redis s) cache_key 300 doc\<rparr>))))"

text \<open>
  \<^verbatim>\<open>update_product\<close>: update, commit, \<^verbatim>\<open>HTTPException(404)\<close> when no row came back;
  otherwise delete the product's key and the key of the listing. An exception of
  \<^verbatim>\<open>cursor.execute\<close> ends the endpoint before the test for the row.
\<close>

definition update_product :: "state \<Rightarrow> int \<Rightarrow> Product \<Rightarrow> (error + pyval) \<times> state" where
  "update_product s product_id product =
     (case update_row s product_id product of
        (Inl e, s1) \<Rightarrow> (Inl e, s1)
      | (Inr None, s1) \<Rightarrow> (Inl (HTTPException 404 ''Product not found''), s1)
      | (Inr (Some updated_product), s1) \<Rightarrow>
          (Inr (dict_of_row updated_product),
           s1\<lparr>redis := r_delete (r_delete (redis s1) (product_key product_id))
                                 ''products:all''\<rparr>))"

text \<open>
  \<^verbatim>\<open>delete_product\<close>: delete, commit, \<^verbatim>\<open>HTTPException(404)\<close> when no id came back;
  otherwise delete the product's key and the key of the listing.
\<close>

definition delete_product :: "state \<Rightarrow> int \<Rightarrow> (error + pyval) \<times> state" where
  "delete_product s product_id =
     (case delete_row s product_id of
        (None, s1) \<Rightarrow> (Inl (HTTPException 404 ''Product not found''), s1)
      | (Some deleted, s1) \<Rightarrow>
          (Inr (PyDict [(''message'', PyStr ''Product deleted successfully'')]),
           s1\<lparr>redis := r_delete (r_delete (redis s1) (product_key product_id))
                                 ''products:all''\<rparr>))"

text \<open>The \<^verbatim>\<open>"status"\<close> entry of a response, as the tests read it; none when the call raised.\<close>

definition status_of :: "error + pyval \<Rightarrow> pyval option" where
  "status_of res = (case res of Inr (PyDict kvs) \<Rightarrow> map_of kvs ''status'' | _ \<Rightarrow> None)"

subsection \<open>Requests and states of the tests\<close>

text \<open>
  The request bodies of \<^verbatim>\<open>test_app.py\<close>, one with a negative stock, and one whose price
  has nine digits before the point.
\<close>

definition laptop :: Product where
  "laptop = \<lparr>name = ''Laptop'', description = ''Gaming laptop'', price = 129999 / 100,
             stock = 10\<rparr>"

definition original :: Product where
  "original = \<lparr>name = ''Original'', description = ''Original desc'', price = 30, stock = 5\<rparr>"

definition updated :: Product where
  "updated = \<lparr>name = ''Updated'', description = ''Updated desc'', price = 40, stock = 10\<rparr>"

definition overpriced :: Product where
  "overpriced = \<lparr>name = ''Updated'', description = ''Updated desc'', price = 123456789,
                 stock = 10\<rparr>"

definition returned_item :: Product where
  "returned_item = \<lparr>name = ''Returned'', description = ''Owed to the warehouse'', price = 20,
                    stock = - 5\<rparr>"

text \<open>
  The table after \<^verbatim>\<open>original\<close> was created, once with an empty cache and once with both
  keys holding the product as JSON.
\<close>

definition stored_state :: state where
  "stored_state =
     \<lparr>products = [\<lparr>row_id = 1, row_name = ''Original'', row_description = ''Original desc'',
                    row_price = 3000, row_stock = 5\<rparr>],
      products_id_seq = 2,
      redis = Map.empty\<rparr>"

definition original_doc :: json where
  "original_doc =
     JObject [(''id'', JInt 1), (''name'', JString ''Original''),
              (''description'', JString ''Original desc''), (''price'', JReal 30),
              (''stock'', JInt 5)]"

definition cached_state :: state where
  "cached_state =
     \<lparr>products = [\<lparr>row_id = 1, row_name = ''Original'', row_description = ''Original desc'',
                    row_price = 3000, row_stock = 5\<rparr>],
      products_id_seq = 2,
      redis = [''product:1'' \<mapsto> \<lparr>payload = original_doc, ttl = 300\<rparr>,
               ''products:all'' \<mapsto> \<lparr>payload = JArray [original_doc], ttl = 300\<rparr>]\<rparr>"

section \<open>Properties\<close>

subsection \<open>The statements\<close>

lemma row_of_values_id: "row_of_values i p = Inr r \<Longrightarrow> row_id r = i"
  by (auto simp: row_of_values_def split: if_splits option.splits)

lemma row_of_values_stock: "row_of_values i p = Inr r \<Longrightarrow> row_stock r = stock p"
  by (auto simp: row_of_values_def to_integer_def split: if_splits option.splits)

lemma row_of_values_any_id:
  "row_of_values i p = Inl e \<longleftrightarrow> row_of_values j p = Inl e"
  by (auto simp: row_of_values_def split: if_splits option.splits)

lemma insert_row_rejected: "row_of_values (products_id_seq s) p = Inl e \<Longrightarrow> insert_row s p = (Inl e, s)"
  by (simp add: insert_row_def)

lemma update_row_rejected: "row_of_values i p = Inl e \<Longrightarrow> update_row s i p = (Inl e, s)"
  by (simp add: update_row_def)

lemma update_row_missing:
  assumes "select_by_id (products s) i = None" and "row_of_values i p = Inr v"
  shows "update_row s i p = (Inr None, s)"
proof -
  from assms(1) have no: "\<forall>r \<in> set (products s). row_id r \<noteq> i"
    by (simp add: select_by_id_def find_None_iff)
  then have "map (\<lambda>r. if row_id r = i then v else r) (products s) = products s"
    by (simp add: map_idI)
  with assms show ?thesis
    by (simp add: update_row_def select_by_id_def)
qed

lemma update_row_returns:
  assumes "update_row s i p = (Inr u, s1)"
  shows "select_by_id (products s1) i = u"
    and "u = None \<longleftrightarrow> select_by_id (products s) i = None"
proof -
  from assms obtain v where v: "row_of_values i p = Inr v"
    and u: "u = find (\<lambda>r. row_id r = i) (map (\<lambda>r. if row_id r = i then v else r) (products s))"
    and s1: "s1 = s\<lparr>products := map (\<lambda>r. if row_id r = i then v else r) (products s)\<rparr>"
    by (auto simp: update_row_def Let_def split: sum.splits)
  show "select_by_id (products s1) i = u"
    by (simp add: u s1 select_by_id_def)
  from row_of_values_id [OF v] show "u = None \<longleftrightarrow> select_by_id (products s) i = None"
    by (auto simp: u select_by_id_def find_None_iff)
qed

lemma delete_row_missing:
  assumes "select_by_id (products s) i = None"
  shows "delete_row s i = (None, s)"
proof -
  from assms have no: "\<forall>r \<in> set (products s). row_id r \<noteq> i"
    by (simp add: select_by_id_def find_None_iff)
  then have "filter (\<lambda>r. row_id r \<noteq> i) (products s) = products s"
    by simp
  with assms show ?thesis
    by (simp add: delete_row_def select_by_id_def)
qed

lemma select_after_delete_row:
  "select_by_id (products (snd (delete_row s i))) i = None"
  by (simp add: delete_row_def select_by_id_def find_None_iff)

lemma select_all_ordered_sorted:
  "sorted (map row_id (select_all_ordered rows)) \<and> mset (select_all_ordered rows) = mset rows"
  by (simp add: select_all_ordered_def)

lemma select_all_ordered_Nil: "select_all_ordered rows = [] \<longleftrightarrow> rows = []"
proof -
  have "length (select_all_ordered rows) = length rows"
    by (simp add: select_all_ordered_def)
  then show ?thesis by (metis length_0_conv)
qed

lemma redis_insert_row: "redis (snd (insert_row s p)) = redis s"
  by (simp add: insert_row_def split: sum.splits)

lemma redis_update_row: "redis (snd (update_row s i p)) = redis s"
  by (simp add: update_row_def Let_def split: sum.splits)

lemma redis_delete_row: "redis (snd (delete_row s i)) = redis s"
  by (simp add: delete_row_def)

lemma products_create:
  "products (snd (create_product s p)) =
     (case row_of_values (products_id_seq s) p of
        Inl e \<Rightarrow> products s
      | Inr new_product \<Rightarrow> products s @ [new_product])"
  by (simp add: create_product_def insert_row_def split: sum.splits)

lemma products_update:
  "products (snd (update_product s i p)) =
     (case row_of_values i p of
        Inl e \<Rightarrow> products s
      | Inr updated_row \<Rightarrow> map (\<lambda>r. if row_id r = i then updated_row else r) (products s))"
  by (simp add: update_product_def update_row_def Let_def split: sum.splits option.splits)

lemma products_delete:
  "products (snd (delete_product s i)) = filter (\<lambda>r. row_id r \<noteq> i) (products s)"
  by (simp add: delete_product_def delete_row_def split: option.splits)

lemma products_get: "products (snd (get_product s i)) = products s"
  by (simp add: get_product_def Let_def split: option.splits sum.splits)

lemma products_list: "products (snd (list_products s b)) = products s"
  by (simp add: list_products_def list_from_database_def Let_def
      split: option.splits sum.splits)

text \<open>The bodies of the tests fit their columns; the price of \<open>overpriced\<close> does not.\<close>

lemma row_of_values_updated:
  "row_of_values i updated =
     Inr \<lparr>row_id = i, row_name = ''Updated'', row_description = ''Updated desc'',
          row_price = 4000, row_stock = 10\<rparr>"
proof -
  have "to_decimal_10_2 40 = Some 4000" by code_simp
  moreover have "to_varchar_255 ''Updated'' = Some ''Updated''"
    by (simp add: to_varchar_255_def)
  moreover have "to_integer 10 = Some 10" by (simp add: to_integer_def)
  ultimately show ?thesis by (simp add: row_of_values_def updated_def)
qed

lemma row_of_values_overpriced: "row_of_values i overpriced = Inl DataError"
proof -
  have "to_decimal_10_2 123456789 = None" by code_simp
  then show ?thesis by (simp add: row_of_values_def overpriced_def split: option.splits)
qed

subsection \<open>Encoding a row\<close>

text \<open>
  A row read from the table carries its price as a \<^verbatim>\<open>Decimal\<close>, so \<^verbatim>\<open>json.dumps\<close>
  raises on every row, and on every listing but the empty one. Both read paths encode
  what they read before they cache and return it.
\<close>

lemma json_dumps_dict_of_row:
  "json_dumps (dict_of_row r) =
     Inl (TypeError ''Object of type Decimal is not JSON serializable'')"
  by (simp add: dict_of_row_def)

lemma json_dumps_rows:
  "json_dumps (PyList (map dict_of_row rows)) =
     (if rows = [] then Inr (JArray [])
      else Inl (TypeError ''Object of type Decimal is not JSON serializable''))"
  by (cases rows) (simp_all add: json_dumps_dict_of_row)

lemma get_product_store_hit:
  assumes "r_get (redis s) (product_key i) = None"
    and "select_by_id (products s) i = Some r"
  shows "get_product s i =
           (Inl (TypeError ''Object of type Decimal is not JSON serializable''), s)"
  using assms by (simp add: get_product_def Let_def json_dumps_dict_of_row)

lemma get_product_not_found_iff:
  "fst (get_product s i) = Inl (HTTPException 404 ''Product not found'') \<longleftrightarrow>
     r_get (redis s) (product_key i) = None \<and> select_by_id (products s) i = None"
  by (simp add: get_product_def Let_def json_dumps_dict_of_row split: option.splits)

lemma list_from_database_raises:
  assumes "products s \<noteq> []"
  shows "list_from_database s =
           (Inl (TypeError ''Object of type Decimal is not JSON serializable''), s)"
proof -
  from assms have "select_all_ordered (products s) \<noteq> []"
    by (simp add: select_all_ordered_Nil)
  then have "json_dumps (PyList (map dict_of_row (select_all_ordered (products s)))) =
      Inl (TypeError ''Object of type Decimal is not JSON serializable'')"
    by (simp only: json_dumps_rows if_False)
  then show ?thesis
    unfolding list_from_database_def Let_def by (simp del: json_dumps.simps)
qed

lemma update_then_get:
  assumes "update_product s i p = (Inr v, s')"
  shows "get_product s' i =
           (Inl (TypeError ''Object of type Decimal is not JSON serializable''), s')"
proof -
  obtain u s1 where ur: "update_row s i p = (u, s1)" by (cases "update_row s i p")
  with assms obtain r where u: "u = Inr (Some r)"
    and s': "s' = s1\<lparr>redis := r_delete (r_delete (redis s1) (product_key i)) ''products:all''\<rparr>"
    by (auto simp: update_product_def split: sum.splits option.splits)
  from update_row_returns(1) [of s i p "Some r" s1] ur u
  have "select_by_id (products s1) i = Some r" by simp
  then have store: "select_by_id (products s') i = Some r" by (simp add: s')
  have cache: "r_get (redis s') (product_key i) = None"
    by (simp add: s' r_get_def r_delete_def)
  from get_product_store_hit [OF cache store] show ?thesis .
qed

subsection \<open>Claims on the read path\<close>

text \<open>
  Claim C1: for a product whose key was filled by an earlier Get, Update followed by Get
  returns the updated product and never the value cached before the update. The update
  does delete the product's key, so the Get that follows misses the cache and reads the
  updated row. It does not return it: encoding the row for the cache raises
  \<^verbatim>\<open>TypeError\<close>. Evaluated on the requests of \<^verbatim>\<open>test_cache_invalidation_on_update\<close>.
\<close>

theorem update_then_get_raises:
  "fst (update_product cached_state 1 updated) =
     Inr (PyDict [(''id'', PyInt 1), (''name'', PyStr ''Updated''),
                  (''description'', PyStr ''Updated desc''),
                  (''price'', PyDecimal 4000), (''stock'', PyInt 10)]) \<and>
   r_get (redis (snd (update_product cached_state 1 updated))) (product_key 1) = None \<and>
   fst (get_product (snd (update_product cached_state 1 updated)) 1) =
     Inl (TypeError ''Object of type Decimal is not JSON serializable'')"
  by code_simp

text \<open>
  Claim C2: after a successful Delete of a product, Get of that product fails with
  \<^verbatim>\<open>HTTPException(404)\<close>, whatever the cache held before: Delete removes the product's
  key and the key of the listing, so Get misses the cache and the table. The failing Get
  leaves the state as it is, so every later Get fails the same way.
\<close>

theorem delete_then_get_not_found:
  assumes "delete_product s i = (Inr v, s')"
  shows "r_get (redis s') (product_key i) = None \<and>
         r_get (redis s') ''products:all'' = None \<and>
         select_by_id (products s') i = None \<and>
         get_product s' i = (Inl (HTTPException 404 ''Product not found''), s')"
proof -
  obtain d s1 where dr: "delete_row s i = (d, s1)" by (cases "delete_row s i")
  with assms obtain x where "d = Some x"
    and s': "s' = s1\<lparr>redis := r_delete (r_delete (redis s1) (product_key i)) ''products:all''\<rparr>"
    by (cases d) (auto simp: delete_product_def)
  have "select_by_id (products s1) i = None"
    using select_after_delete_row [of s i] dr by simp
  then have store: "select_by_id (products s') i = None" by (simp add: s')
  have cache: "r_get (redis s') (product_key i) = None"
    by (simp add: s' r_get_def r_delete_def)
  have listing: "r_get (redis s') ''products:all'' = None"
    by (simp add: s' r_get_def r_delete_def)
  have "get_product s' i = (Inl (HTTPException 404 ''Product not found''), s')"
    by (simp add: get_product_def store cache)
  with cache listing store show ?thesis by simp
qed

text \<open>
  The product is in the table, under its key and in the cached listing; it is deleted,
  then asked for.
\<close>

theorem delete_then_get_not_found_witness:
  "r_get (redis cached_state) (product_key 1) = Some original_doc \<and>
   r_get (redis cached_state) ''products:all'' = Some (JArray [original_doc]) \<and>
   fst (delete_product cached_state 1) =
     Inr (PyDict [(''message'', PyStr ''Product deleted successfully'')]) \<and>
   r_get (redis (snd (delete_product cached_state 1))) (product_key 1) = None \<and>
   r_get (redis (snd (delete_product cached_state 1))) ''products:all'' = None \<and>
   fst (get_product (snd (delete_product cached_state 1)) 1) =
     Inl (HTTPException 404 ''Product not found'')"
proof -
  have ok: "fst (delete_product cached_state 1) =
      Inr (PyDict [(''message'', PyStr ''Product deleted successfully'')])"
    by (simp add: delete_product_def delete_row_def cached_state_def)
  then have "delete_product cached_state 1 =
      (Inr (PyDict [(''message'', PyStr ''Product deleted successfully'')]),
       snd (delete_product cached_state 1))"
    by (simp add: prod_eq_iff)
  from delete_then_get_not_found [OF this] ok show ?thesis
    by (simp add: cached_state_def r_get_def product_key_def py_str_def)
qed

text \<open>
  Claim C3: Get fails with \<^verbatim>\<open>HTTPException(404)\<close> exactly when the product's key is
  absent and the table has no such row; when the key is absent and the row is there, Get
  fills the key for 300 seconds and returns the row. The first half holds
  (\<open>get_product_not_found_iff\<close>). The second does not: with the key absent and the row
  there, Get raises \<^verbatim>\<open>TypeError\<close> and leaves the cache as it was.
\<close>

theorem get_store_hit_raises:
  "r_get (redis stored_state) (product_key 1) = None \<and>
   map row_id (products stored_state) = [1] \<and>
   get_product stored_state 1 =
     (Inl (TypeError ''Object of type Decimal is not JSON serializable''), stored_state)"
  by (simp add: get_product_def stored_state_def r_get_def select_by_id_def
      json_dumps_dict_of_row)

text \<open>
  Claim C5: every call of List returns the products in ascending order of their ids, from
  the cache or from the table. The query does order the rows
  (\<open>select_all_ordered_sorted\<close>), but a listing read from a table that is not empty is
  never returned: encoding it raises \<^verbatim>\<open>TypeError\<close>, with and without
  \<^verbatim>\<open>use_cache\<close>.
\<close>

theorem list_products_raises:
  "fst (list_products (snd (create_product init_state laptop)) True) =
     Inl (TypeError ''Object of type Decimal is not JSON serializable'') \<and>
   fst (list_products (snd (create_product init_state laptop)) False) =
     Inl (TypeError ''Object of type Decimal is not JSON serializable'')"
  by code_simp

text \<open>
  Claim C8: Create followed by Get of the id it assigned returns the created product
  field for field, the price 1299.99 included. Create returns the row; the Get that
  follows raises \<^verbatim>\<open>TypeError\<close>.
\<close>

theorem create_then_get_raises:
  "fst (create_product init_state laptop) =
     Inr (PyDict [(''id'', PyInt 1), (''name'', PyStr ''Laptop''),
                  (''description'', PyStr ''Gaming laptop''),
                  (''price'', PyDecimal 129999), (''stock'', PyInt 10)]) \<and>
   fst (get_product (snd (create_product init_state laptop)) 1) =
     Inl (TypeError ''Object of type Decimal is not JSON serializable'')"
  by code_simp

subsection \<open>Claims on the write path\<close>

text \<open>
  Claim C4: Update of an id that no row has fails with \<^verbatim>\<open>HTTPException(404)\<close> and
  leaves the table as it was. Not for every body: a body that does not fit the columns
  makes \<^verbatim>\<open>cursor.execute\<close> raise before the endpoint tests whether a row came back.
  Here the price has nine digits before the point, and no row has the id.
\<close>

theorem update_missing_rejected:
  "select_by_id (products cached_state) 99999 = None \<and>
   update_product cached_state 99999 overpriced = (Inl DataError, cached_state)"
  by (simp add: update_product_def update_row_rejected [OF row_of_values_overpriced]
      select_by_id_def cached_state_def)

text \<open>
  Claim C4, amended: Update of an id that no row has, with a body that fits the columns
  of the table, fails with \<^verbatim>\<open>HTTPException(404)\<close> and leaves the table as it was (and
  with it the whole state).
\<close>

theorem update_missing_not_found:
  assumes "select_by_id (products s) i = None" and "row_of_values i p = Inr v"
  shows "update_product s i p = (Inl (HTTPException 404 ''Product not found''), s)"
  by (simp add: update_product_def update_row_missing [OF assms])

theorem update_missing_not_found_witness:
  "select_by_id (products cached_state) 99999 = None \<and>
   row_of_values 99999 updated =
     Inr \<lparr>row_id = 99999, row_name = ''Updated'', row_description = ''Updated desc'',
          row_price = 4000, row_stock = 10\<rparr> \<and>
   update_product cached_state 99999 updated =
     (Inl (HTTPException 404 ''Product not found''), cached_state)"
proof -
  have h: "select_by_id (products cached_state) 99999 = None"
    by (simp add: select_by_id_def cached_state_def)
  note v = row_of_values_updated [of 99999]
  from update_missing_not_found [OF h v] h v show ?thesis by simp
qed

text \<open>
  Claim C6: Create, Update and Delete never put a value into the cache; they only delete
  keys. After each of them every key of the cache was there before, with the value it
  had.
\<close>

theorem write_path_only_deletes:
  "redis (snd (create_product s p)) \<subseteq>\<^sub>m redis s \<and>
   redis (snd (update_product s i p)) \<subseteq>\<^sub>m redis s \<and>
   redis (snd (delete_product s i)) \<subseteq>\<^sub>m redis s"
proof (intro conjI)
  have one: "r_delete c k \<subseteq>\<^sub>m c" for c :: cache and k
    by (simp add: r_delete_def map_le_def)
  have two: "r_delete (r_delete c k) k' \<subseteq>\<^sub>m c" for c :: cache and k k'
    by (simp add: r_delete_def map_le_def)
  show "redis (snd (create_product s p)) \<subseteq>\<^sub>m redis s"
    using redis_insert_row [of s p]
    by (cases "insert_row s p") (auto simp: create_product_def one split: sum.splits)
  show "redis (snd (update_product s i p)) \<subseteq>\<^sub>m redis s"
    using redis_update_row [of s i p]
    by (cases "update_row s i p")
      (auto simp: update_product_def two split: sum.splits option.splits)
  show "redis (snd (delete_product s i)) \<subseteq>\<^sub>m redis s"
    using redis_delete_row [of s i]
    by (cases "delete_row s i") (auto simp: delete_product_def two split: option.splits)
qed

text \<open>
  Claim C7: the stock of every stored product is a non-negative integer. The service
  stores the stock of the request as it is, so a request with a negative stock gives a
  row with a negative stock.
\<close>

theorem negative_stock_stored:
  "map row_stock (products (snd (create_product init_state returned_item))) = [- 5]"
  by code_simp

text \<open>
  Claim C7, amended: when the stock of the request is not negative and no stored stock
  is negative, no stored stock is negative after any of the five operations.
\<close>

theorem stock_sign_preserved:
  assumes "0 \<le> stock p" and "\<forall>r \<in> set (products s). 0 \<le> row_stock r"
  shows "(\<forall>r \<in> set (products (snd (create_product s p))). 0 \<le> row_stock r) \<and>
         (\<forall>r \<in> set (products (snd (update_product s i p))). 0 \<le> row_stock r) \<and>
         (\<forall>r \<in> set (products (snd (delete_product s i))). 0 \<le> row_stock r) \<and>
         (\<forall>r \<in> set (products (snd (get_product s i))). 0 \<le> row_stock r) \<and>
         (\<forall>r \<in> set (products (snd (list_products s b))). 0 \<le> row_stock r)"
proof (intro conjI)
  show "\<forall>r \<in> set (products (snd (create_product s p))). 0 \<le> row_stock r"
    using assms by (auto simp: products_create dest: row_of_values_stock split: sum.splits)
  show "\<forall>r \<in> set (products (snd (update_product s i p))). 0 \<le> row_stock r"
    using assms by (auto simp: products_update dest: row_of_values_stock split: sum.splits)
  show "\<forall>r \<in> set (products (snd (delete_product s i))). 0 \<le> row_stock r"
    using assms by (simp add: products_delete)
  show "\<forall>r \<in> set (products (snd (get_product s i))). 0 \<le> row_stock r"
    using assms by (simp add: products_get)
  show "\<forall>r \<in> set (products (snd (list_products s b))). 0 \<le> row_stock r"
    using assms by (simp add: products_list)
qed

theorem stock_sign_preserved_witness:
  "0 \<le> stock updated \<and> list_all (\<lambda>r. 0 \<le> row_stock r) (products cached_state) \<and>
   list_all (\<lambda>r. 0 \<le> row_stock r) (products (snd (create_product cached_state updated))) \<and>
   list_all (\<lambda>r. 0 \<le> row_stock r) (products (snd (update_product cached_state 1 updated))) \<and>
   map row_stock (products (snd (update_product cached_state 1 updated))) = [10]"
proof -
  have a: "0 \<le> stock updated" by (simp add: updated_def)
  have b: "\<forall>r \<in> set (products cached_state). 0 \<le> row_stock r"
    by (simp add: cached_state_def)
  have c: "map row_stock (products (snd (update_product cached_state 1 updated))) = [10]"
    by (simp add: products_update row_of_values_updated cached_state_def)
  from stock_sign_preserved [OF a b, of 1] a b c show ?thesis
    by (simp add: list_all_iff)
qed

text \<open>
  Claim C10: when Update or Delete fails with \<^verbatim>\<open>HTTPException(404)\<close>, the cache is as
  it was: neither the product's key nor the key of the listing is deleted.
\<close>

theorem not_found_leaves_cache:
  "(fst (update_product s i p) = Inl (HTTPException 404 ''Product not found'') \<longrightarrow>
      redis (snd (update_product s i p)) = redis s) \<and>
   (fst (delete_product s i) = Inl (HTTPException 404 ''Product not found'') \<longrightarrow>
      redis (snd (delete_product s i)) = redis s)"
proof (intro conjI impI)
  assume a: "fst (update_product s i p) = Inl (HTTPException 404 ''Product not found'')"
  obtain u s1 where ur: "update_row s i p = (u, s1)" by (cases "update_row s i p")
  with a have "\<not> (\<exists>r. u = Inr (Some r))"
    by (auto simp: update_product_def)
  with ur redis_update_row [of s i p] show "redis (snd (update_product s i p)) = redis s"
    by (auto simp: update_product_def split: sum.splits option.splits)
next
  assume a: "fst (delete_product s i) = Inl (HTTPException 404 ''Product not found'')"
  obtain d s1 where dr: "delete_row s i = (d, s1)" by (cases "delete_row s i")
  with a have "d = None" by (cases d) (simp_all add: delete_product_def)
  with dr redis_delete_row [of s i] show "redis (snd (delete_product s i)) = redis s"
    by (simp add: delete_product_def)
qed

theorem not_found_leaves_cache_witness:
  "fst (update_product cached_state 99999 updated) =
     Inl (HTTPException 404 ''Product not found'') \<and>
   fst (delete_product cached_state 99999) = Inl (HTTPException 404 ''Product not found'') \<and>
   redis (snd (update_product cached_state 99999 updated)) = redis cached_state \<and>
   redis (snd (delete_product cached_state 99999)) = redis cached_state \<and>
   r_get (redis cached_state) ''product:1'' = Some original_doc \<and>
   r_get (redis cached_state) ''products:all'' = Some (JArray [original_doc])"
proof -
  have u: "fst (update_product cached_state 99999 updated) =
      Inl (HTTPException 404 ''Product not found'')"
    by (simp add: update_product_def update_row_def row_of_values_updated cached_state_def)
  have d: "fst (delete_product cached_state 99999) =
      Inl (HTTPException 404 ''Product not found'')"
    by (simp add: delete_product_def delete_row_def cached_state_def)
  have c: "r_get (redis cached_state) ''product:1'' = Some original_doc \<and>
      r_get (redis cached_state) ''products:all'' = Some (JArray [original_doc])"
    by (simp add: cached_state_def r_get_def)
  from not_found_leaves_cache [of cached_state 99999 updated] u d c show ?thesis
    by simp
qed

subsection \<open>The health check\<close>

text \<open>
  Claim C9: the health check reports one of three statuses, healthy, degraded-store and
  degraded-cache, and a failure of either server is one failure that does not say which.
  With the database down, or with the cache down, the check raises the same
  \<^verbatim>\<open>HTTPException(500)\<close> and reports no status at all.
\<close>

theorem health_check_no_degraded_status:
  "health_check (Some ''connection refused'') None =
     Inl (HTTPException 500 ''Health check failed: connection refused'') \<and>
   health_check None (Some ''connection refused'') =
     Inl (HTTPException 500 ''Health check failed: connection refused'') \<and>
   status_of (health_check (Some ''connection refused'') None) = None \<and>
   status_of (health_check None (Some ''connection refused'')) = None"
  by (simp add: health_check_def status_of_def)

text \<open>
  Claim C9, amended: the health check reports the status healthy when both servers
  answer. When a server fails it reports no status and raises one
  \<^verbatim>\<open>HTTPException(500)\<close> whose detail is \<^verbatim>\<open>Health check failed: \<close> followed by the text
  of the exception, whichever server raised it: the same exception from the database or
  from the cache gives the same failure.
\<close>

theorem health_check_two_outcomes:
  "health_check None None =
     Inr (PyDict [(''status'', PyStr ''healthy''), (''postgres'', PyStr ''connected''),
                  (''redis'', PyStr ''connected'')]) \<and>
   health_check (Some e) rd = Inl (HTTPException 500 (''Health check failed: '' @ e)) \<and>
   health_check None (Some e) = Inl (HTTPException 500 (''Health check failed: '' @ e)) \<and>
   health_check (Some e) None = health_check None (Some e) \<and>
   status_of (health_check pg rd) =
     (if pg = None \<and> rd = None then Some (PyStr ''healthy'') else None) \<and>
   ((\<exists>detail. health_check pg rd = Inl (HTTPException 500 detail)) \<longleftrightarrow>
      \<not> (pg = None \<and> rd = None))"
proof -
  have "status_of (health_check pg rd) =
      (if pg = None \<and> rd = None then Some (PyStr ''healthy'') else None)"
    by (cases pg; cases rd) (simp_all add: health_check_def status_of_def)
  moreover have "(\<exists>detail. health_check pg rd = Inl (HTTPException 500 detail)) \<longleftrightarrow>
      \<not> (pg = None \<and> rd = None)"
    by (cases pg; cases rd) (simp_all add: health_check_def)
  ultimately show ?thesis by (simp add: health_check_def)
qed

end
